theory Spec2Isabelle
  imports Main "HOL-Library.Sublist"
begin

section \<open>Python strings and POSIX paths\<close>

text \<open>
  A Python \<open>str\<close> is modelled as a HOL \<open>string\<close>; every character is read as one
  code point in the range U+0000..U+00FF. All delimiters the program looks at
  (\<open>/\<close>, \<open>.\<close>, newline, the tags \<open>[d]\<close> and \<open>[f]\<close>) are ASCII.
\<close>

text \<open>\<open>str.isspace\<close> on one character, for the code points below 256.\<close>

definition py_isspace :: "char \<Rightarrow> bool" where
  "py_isspace c =
     (of_char c \<in> {9, 10, 11, 12, 13, 28, 29, 30, 31, 32, 133, 160 :: nat})"

text \<open>\<open>s.strip()\<close>: whitespace is removed at both ends of the whole text.\<close>

definition py_strip :: "string \<Rightarrow> string" where
  "py_strip s = rev (dropWhile py_isspace (rev (dropWhile py_isspace s)))"

text \<open>\<open>s.lstrip('/')\<close>.\<close>

definition lstrip_slash :: "string \<Rightarrow> string" where
  "lstrip_slash s = dropWhile (\<lambda>c. c = CHR ''/'') s"

text \<open>\<open>s.split(c)\<close> for a one-character separator: the result is never empty.\<close>

fun py_split :: "char \<Rightarrow> string \<Rightarrow> string list" where
  "py_split c [] = [[]]"
| "py_split c (x # xs) =
     (if x = c then [] # py_split c xs
      else (case py_split c xs of
              [] \<Rightarrow> [[x]]
            | w # ws \<Rightarrow> (x # w) # ws))"

text \<open>
  \<open>s.replace(old, new)\<close>: the occurrences of \<open>old\<close> are replaced from left to
  right, without overlap. For an empty \<open>old\<close> Python inserts \<open>new\<close> before every
  character and at the end.
\<close>

function py_replace :: "string \<Rightarrow> string \<Rightarrow> string \<Rightarrow> string" where
  "py_replace old new s =
     (if old = [] then concat (map (\<lambda>c. new @ [c]) s) @ new
      else if prefix old s then new @ py_replace old new (drop (length old) s)
      else (case s of
              [] \<Rightarrow> []
            | c # cs \<Rightarrow> c # py_replace old new cs))"
  by pat_completeness auto
termination
  by (relation "measure (\<lambda>(old, new, s). length s)") (auto simp: prefix_def)

declare py_replace.simps [simp del]

text \<open>\<open>os.path.basename\<close>, \<open>os.path.dirname\<close> and the two-argument \<open>os.path.join\<close> of posixpath.\<close>

definition os_path_basename :: "string \<Rightarrow> string" where
  "os_path_basename p = rev (takeWhile (\<lambda>c. c \<noteq> CHR ''/'') (rev p))"

definition os_path_dirname :: "string \<Rightarrow> string" where
  "os_path_dirname p =
     (let head = rev (dropWhile (\<lambda>c. c \<noteq> CHR ''/'') (rev p))
      in if head \<noteq> [] \<and> \<not> list_all (\<lambda>c. c = CHR ''/'') head
         then rev (dropWhile (\<lambda>c. c = CHR ''/'') (rev head))
         else head)"

definition os_path_join :: "string \<Rightarrow> string \<Rightarrow> string" where
  "os_path_join a b =
     (if prefix ''/'' b then b
      else if a = [] \<or> suffix ''/'' a then a @ b
      else a @ ''/'' @ b)"

text \<open>
  \<open>Path(p).stem\<close>: the last path component without its last suffix. A leading dot
  and a trailing dot do not start a suffix.
\<close>

definition path_stem :: "string \<Rightarrow> string" where
  "path_stem p =
     (let name = os_path_basename p;
          ext = takeWhile (\<lambda>c. c \<noteq> CHR ''.'') (rev name);
          i = length name - length ext - 1
      in if CHR ''.'' \<in> set name \<and> 0 < i \<and> ext \<noteq> [] then take i name else name)"

section \<open>Listing Parser\<close>

text \<open>
  \<open>parse_rmapi_find\<close> (main.py, lines 82 to 120). First its loop over the lines,
  with the two lists it appends to as the state.
\<close>

fun parse_lines :: "string list \<Rightarrow> string list \<times> string list \<Rightarrow> string list \<times> string list" where
  "parse_lines [] (directories, files) = (directories, files)"
| "parse_lines (line # rest) (directories, files) =
     (if line = [] then parse_lines rest (directories, files)
      else if prefix ''[d] '' line then parse_lines rest (directories @ [drop 4 line], files)
      else if prefix ''[f] '' line then parse_lines rest (directories, files @ [drop 4 line])
      else parse_lines rest (directories, files))"

definition parse_rmapi_find :: "string \<Rightarrow> string list \<times> string list" where
  "parse_rmapi_find rmapi_find_output =
     parse_lines (py_split CHR 0x0A (py_strip rmapi_find_output)) ([], [])"

section \<open>Effects, exceptions and the outside world\<close>

text \<open>The Python exceptions that can leave one of the modelled functions.\<close>

datatype exc =
    BadZipFile        \<comment> \<open>\<open>zipfile.ZipFile\<close> or \<open>extractall\<close> raises (bad archive, missing file)\<close>
  | JSONDecodeError   \<comment> \<open>\<open>json.load\<close> raises\<close>
  | KeyError
  | TypeError
  | ValueError        \<comment> \<open>\<open>os.makedirs\<close> raises for a path with an embedded NUL character\<close>
  | OSError           \<comment> \<open>a file-system call or the start of a subprocess raises\<close>

text \<open>JSON values as \<open>json.load\<close> returns them; an object is the parsed \<open>dict\<close>.\<close>

datatype json =
    JNull
  | JBool bool
  | JNum int
  | JStr string
  | JArr "json list"
  | JObj "(string \<times> json) list"

text \<open>The messages printed by the program, one constructor for each \<open>print\<close>.\<close>

datatype msg =
    MsgChecking string            \<comment> \<open>Checking and creating directories within: ...\<close>
  | MsgErrorBase string           \<comment> \<open>Error creating base output path ...\<close>
  | MsgDirCreated string          \<comment> \<open>Directory created or already exists: ...\<close>
  | MsgDirError string            \<comment> \<open>Error creating directory ...\<close>
  | MsgMergeAborted               \<comment> \<open>PDF merging aborted. PyPDF2 is not installed.\<close>
  | MsgMergeSuccessful            \<comment> \<open>PDF merge successful.\<close>
  | MsgMergeError                 \<comment> \<open>Error merging PDFs with PyPDF2: ...\<close>
  | MsgStarting string            \<comment> \<open>Starting to process ...\<close>
  | MsgUnzipped string            \<comment> \<open>Successfully unzipped to ...\<close>
  | MsgContentNotFound            \<comment> \<open>Error: .content file not found in the archive.\<close>
  | MsgFoundImportedPdf string    \<comment> \<open>Found imported PDF file: ... Copying directly.\<close>
  | MsgCopied string string       \<comment> \<open>Copied ... to ...\<close>
  | MsgExtractedPageIds "json list" \<comment> \<open>Extracted page IDs: ...\<close>
  | MsgConverting string string   \<comment> \<open>Converting '...' to '...'...\<close>
  | MsgConversionSuccessful       \<comment> \<open>Conversion successful.\<close>
  | MsgErrorConvertingPage        \<comment> \<open>Error converting page: ...\<close>
  | MsgRmNotFound json            \<comment> \<open>Warning: .rm file for ID ... not found.\<close>
  | MsgNoPages                    \<comment> \<open>No PDF pages were created. Aborting.\<close>
  | MsgJoining nat string         \<comment> \<open>Joining ... pages into ......\<close>
  | MsgSkippingConversion string  \<comment> \<open>Skipping conversion for ... because it lacks 'cPages' ...\<close>
  | MsgNoOriginalFile string      \<comment> \<open>Error: Could not find original file to copy in ...\<close>
  | MsgCleaningUp string          \<comment> \<open>Cleaning up temporary directory ......\<close>
  | MsgCleanupComplete            \<comment> \<open>Cleanup complete.\<close>
  | MsgFinalPdf string            \<comment> \<open>Final PDF created at: ...\<close>

text \<open>
  What a run does to the outside world, in the order it happens. \<open>MergeCall\<close>
  records that \<open>merge_pdfs\<close> was entered, with its two arguments; every other
  event is a call of a library function or of an external program.
\<close>

datatype event =
    Print msg
  | Makedirs string                \<comment> \<open>\<open>os.makedirs(path, exist_ok=True)\<close>\<close>
  | Extractall string string       \<comment> \<open>\<open>ZipFile(archive).extractall(dir)\<close>\<close>
  | Copyfile string string         \<comment> \<open>\<open>shutil.copyfile(src, dst)\<close>\<close>
  | Rmc string string              \<comment> \<open>\<open>rmc -f rm -t pdf -o out in\<close>\<close>
  | MergeCall "string list" string
  | PdfAppend string               \<comment> \<open>\<open>merger.append(pdf_file)\<close>\<close>
  | PdfWrite string "string list"  \<comment> \<open>\<open>merger.write\<close> to the path, of the pages appended so far\<close>
  | Rmtree string                  \<comment> \<open>\<open>shutil.rmtree(dir, ignore_errors=True)\<close>\<close>

text \<open>How a block of statements ends, and how a function call ends.\<close>

datatype ctl = Normal | Return | Raise exc

datatype outcome = Returned | Raised exc

text \<open>A directory tree on disk: the entries of a directory in the order \<open>os.scandir\<close> lists them.\<close>

datatype node = File string | Dir string "node list"

text \<open>The exit of one \<open>subprocess.run(['rmc', ...], check=True)\<close>.\<close>

datatype rmc_result =
    RmcOk
  | RmcCalledProcessError   \<comment> \<open>non-zero exit status\<close>
  | RmcOSError              \<comment> \<open>the program cannot be started\<close>

text \<open>
  The collaborators outside the program. Each field answers what the library call
  or external program does for the given arguments during the processing of one
  archive; within it, the same arguments get the same answer.
\<close>

record world =
  uuid4 :: string
    \<comment> \<open>the text of \<open>uuid.uuid4()\<close>\<close>
  extractall :: "string \<Rightarrow> string \<Rightarrow> node list option"
    \<comment> \<open>archive path and target directory: \<open>None\<close> when it raises, else the entries now in the target directory\<close>
  json_load :: "string \<Rightarrow> json option"
    \<comment> \<open>\<open>json.load\<close> of the file at the path: \<open>None\<close> when it raises\<close>
  copyfile_ok :: "string \<Rightarrow> string \<Rightarrow> bool"
  rmc :: "string \<Rightarrow> string \<Rightarrow> rmc_result"
    \<comment> \<open>output path and input path\<close>
  PdfMerger_is_None :: bool
  pdf_append_ok :: "string \<Rightarrow> bool"
  pdf_write_ok :: "string \<Rightarrow> bool"
  abspath :: "string \<Rightarrow> string"
    \<comment> \<open>\<open>os.path.abspath\<close>, which depends on the current working directory\<close>

text \<open>Events first, then the rest of the computation.\<close>

definition pre :: "event list \<Rightarrow> event list \<times> 'a \<Rightarrow> event list \<times> 'a" where
  "pre evs r = (evs @ fst r, snd r)"

section \<open>Tree Mirror\<close>






section \<open>Merger\<close>

text \<open>
  \<open>merge_pdfs\<close> (lines 222 to 243). First the loop
  \<open>for pdf_file in pdf_list: merger.append(pdf_file)\<close>; the state is the list of
  files the merger holds. The first \<open>append\<close> that raises ends the loop. Every
  exception is caught in \<open>merge_pdfs\<close> and turns into the result \<open>False\<close>.
\<close>

fun append_all :: "world \<Rightarrow> string list \<Rightarrow> string list \<Rightarrow> event list \<times> string list option" where
  "append_all E merger [] = ([], Some merger)"
| "append_all E merger (pdf_file # rest) =
     (if pdf_append_ok E pdf_file
      then pre [PdfAppend pdf_file] (append_all E (merger @ [pdf_file]) rest)
      else ([PdfAppend pdf_file], None))"

definition merge_pdfs :: "world \<Rightarrow> string list \<Rightarrow> string \<Rightarrow> event list \<times> bool" where
  "merge_pdfs E pdf_list output_path =
     pre [MergeCall pdf_list output_path]
       (if PdfMerger_is_None E then ([Print MsgMergeAborted], False)
        else (case append_all E [] pdf_list of
                (evs, None) \<Rightarrow> (evs @ [Print MsgMergeError], False)
              | (evs, Some merger) \<Rightarrow>
                  if pdf_write_ok E output_path
                  then (evs @ [PdfWrite output_path merger, Print MsgMergeSuccessful], True)
                  else (evs @ [Print MsgMergeError], False)))"

section \<open>The extracted tree\<close>

fun file_names :: "node list \<Rightarrow> string list" where
  "file_names [] = []"
| "file_names (File n # es) = n # file_names es"
| "file_names (Dir n sub # es) = file_names es"

text \<open>
  \<open>os.walk(top)\<close>, top-down: the directory with its file names first, then each
  subdirectory in turn. The program ignores the list of subdirectory names, so a
  step of the walk is the pair \<open>(root, files)\<close>.
\<close>

fun os_walk :: "string \<Rightarrow> node list \<Rightarrow> (string \<times> string list) list"
  and walk_subdirs :: "string \<Rightarrow> node list \<Rightarrow> (string \<times> string list) list" where
  "os_walk topdir es = (topdir, file_names es) # walk_subdirs topdir es"
| "walk_subdirs topdir [] = []"
| "walk_subdirs topdir (File n # es) = walk_subdirs topdir es"
| "walk_subdirs topdir (Dir n sub # es) = os_walk (os_path_join topdir n) sub @ walk_subdirs topdir es"

text \<open>
  The search loops of \<open>process_rmdoc_file\<close>: the first file of the walk that passes
  the test, as \<open>os.path.join(root, file)\<close>; \<open>None\<close> when the walk ends without one.
\<close>

fun first_file :: "(string \<Rightarrow> bool) \<Rightarrow> (string \<times> string list) list \<Rightarrow> string option" where
  "first_file P [] = None"
| "first_file P ((root, files) # rest) =
     (case List.find P files of
        Some file \<Rightarrow> Some (os_path_join root file)
      | None \<Rightarrow> first_file P rest)"

text \<open>\<open>os.path.exists\<close>, for the paths below the extraction directory.\<close>

fun tree_paths :: "string \<Rightarrow> node list \<Rightarrow> string list" where
  "tree_paths topdir [] = []"
| "tree_paths topdir (File n # es) = os_path_join topdir n # tree_paths topdir es"
| "tree_paths topdir (Dir n sub # es) =
     os_path_join topdir n # tree_paths (os_path_join topdir n) sub @ tree_paths topdir es"

definition os_path_exists :: "string \<Rightarrow> node list \<Rightarrow> string \<Rightarrow> bool" where
  "os_path_exists topdir tree p = (p \<in> set (tree_paths topdir tree))"

section \<open>The manifest\<close>

text \<open>\<open>value[key]\<close> for a string key, and \<open>iter(value)\<close>.\<close>

fun py_getitem :: "json \<Rightarrow> string \<Rightarrow> exc + json" where
  "py_getitem (JObj kvs) k = (case map_of kvs k of None \<Rightarrow> Inl KeyError | Some v \<Rightarrow> Inr v)"
| "py_getitem _ k = Inl TypeError"

fun py_iter :: "json \<Rightarrow> exc + json list" where
  "py_iter (JArr xs) = Inr xs"
| "py_iter (JObj kvs) = Inr (map (\<lambda>kv. JStr (fst kv)) kvs)"
| "py_iter (JStr s) = Inr (map (\<lambda>c. JStr [c]) s)"
| "py_iter _ = Inl TypeError"

text \<open>\<open>[page['id'] for page in pages]\<close>.\<close>

fun page_id_list :: "json list \<Rightarrow> exc + json list" where
  "page_id_list [] = Inr []"
| "page_id_list (page # rest) =
     (case py_getitem page ''id'' of
        Inl e \<Rightarrow> Inl e
      | Inr i \<Rightarrow> (case page_id_list rest of Inl e \<Rightarrow> Inl e | Inr ids \<Rightarrow> Inr (i # ids)))"

text \<open>\<open>[page['id'] for page in content_data['cPages']['pages']]\<close>.\<close>

definition page_ids_of :: "json \<Rightarrow> exc + json list" where
  "page_ids_of content_data =
     (case py_getitem content_data ''cPages'' of
        Inl e \<Rightarrow> Inl e
      | Inr cpages \<Rightarrow>
          (case py_getitem cpages ''pages'' of
             Inl e \<Rightarrow> Inl e
           | Inr pages \<Rightarrow>
               (case py_iter pages of
                  Inl e \<Rightarrow> Inl e
                | Inr ps \<Rightarrow> page_id_list ps)))"

section \<open>Page Reconstructor\<close>

text \<open>
  The converter writes its outputs \<open><page-id>.pdf\<close> into the extraction directory
  while the loop runs. A name ending in \<open>.pdf\<close> passes none of the tests of the
  search loops, so the walks are taken over the tree as it was extracted.
\<close>

text \<open>The test \<open>file.startswith(page_id) and file.endswith('.rm')\<close> for a \<open>str\<close> page id.\<close>

definition is_rm_page :: "string \<Rightarrow> string \<Rightarrow> bool" where
  "is_rm_page page_id file = (prefix page_id file \<and> suffix ''.rm'' file)"

text \<open>
  One round of the \<open>for page_id in page_ids\<close> loop (lines 306 to 336), from the
  list \<open>pdf_pages\<close> to the list after the round. \<open>str.startswith\<close> raises
  \<open>TypeError\<close> for a page id that is not a \<open>str\<close>, at the first file the walk
  reaches. The path is appended before the converter runs (line 320).
\<close>

definition convert_page ::
  "world \<Rightarrow> string \<Rightarrow> node list \<Rightarrow> json \<Rightarrow> string list \<Rightarrow> event list \<times> (exc + string list)" where
  "convert_page E temp_extract_dir tree page_id pdf_pages =
     (case page_id of
        JStr pid \<Rightarrow>
          (case first_file (is_rm_page pid) (os_walk temp_extract_dir tree) of
             Some rm_file_path \<Rightarrow>
               (let pdf_page_path = os_path_join temp_extract_dir (pid @ ''.pdf'');
                    pdf_pages' = pdf_pages @ [pdf_page_path]
                in case rmc E pdf_page_path rm_file_path of
                     RmcOk \<Rightarrow>
                       ([Print (MsgConverting rm_file_path pdf_page_path),
                         Rmc pdf_page_path rm_file_path,
                         Print MsgConversionSuccessful], Inr pdf_pages')
                   | RmcCalledProcessError \<Rightarrow>
                       ([Print (MsgConverting rm_file_path pdf_page_path),
                         Rmc pdf_page_path rm_file_path,
                         Print MsgErrorConvertingPage], Inr pdf_pages')
                   | RmcOSError \<Rightarrow>
                       ([Print (MsgConverting rm_file_path pdf_page_path),
                         Rmc pdf_page_path rm_file_path], Inl OSError))
           | None \<Rightarrow> ([Print (MsgRmNotFound page_id)], Inr pdf_pages))
      | _ \<Rightarrow>
          if list_ex (\<lambda>step. snd step \<noteq> []) (os_walk temp_extract_dir tree)
          then ([], Inl TypeError)
          else ([Print (MsgRmNotFound page_id)], Inr pdf_pages))"

fun convert_pages ::
  "world \<Rightarrow> string \<Rightarrow> node list \<Rightarrow> json list \<Rightarrow> string list \<Rightarrow> event list \<times> (exc + string list)" where
  "convert_pages E temp_extract_dir tree [] pdf_pages = ([], Inr pdf_pages)"
| "convert_pages E temp_extract_dir tree (page_id # rest) pdf_pages =
     (case convert_page E temp_extract_dir tree page_id pdf_pages of
        (evs, Inl e) \<Rightarrow> (evs, Inl e)
      | (evs, Inr pdf_pages') \<Rightarrow> pre evs (convert_pages E temp_extract_dir tree rest pdf_pages'))"

text \<open>The \<open>try\<close> block of the native-notebook branch (lines 301 to 344).\<close>

definition notebook_try ::
  "world \<Rightarrow> string \<Rightarrow> string \<Rightarrow> node list \<Rightarrow> json \<Rightarrow> event list \<times> ctl" where
  "notebook_try E temp_extract_dir final_pdf_path tree content_data =
     (case page_ids_of content_data of
        Inl e \<Rightarrow> ([], Raise e)
      | Inr page_ids \<Rightarrow>
          pre [Print (MsgExtractedPageIds page_ids)]
            (case convert_pages E temp_extract_dir tree page_ids [] of
               (evs, Inl e) \<Rightarrow> (evs, Raise e)
             | (evs, Inr pdf_pages) \<Rightarrow>
                 if pdf_pages = [] then (evs @ [Print MsgNoPages], Return)
                 else (evs @ [Print (MsgJoining (length pdf_pages) final_pdf_path)]
                         @ fst (merge_pdfs E pdf_pages final_pdf_path), Normal)))"

section \<open>Archive Classifier\<close>

text \<open>The test of the fallback search in the \<open>except KeyError\<close> block (lines 346 to 363).\<close>

definition is_original :: "string \<Rightarrow> bool" where
  "is_original file =
     (\<not> suffix ''.content'' file \<and> \<not> suffix ''.metadata'' file
      \<and> \<not> suffix ''.pagedata'' file \<and> \<not> suffix ''.pdf'' file)"

text \<open>\<open>shutil.copyfile(src, dst)\<close> followed by the report; a failing copy raises.\<close>

definition copy_to :: "world \<Rightarrow> string \<Rightarrow> string \<Rightarrow> event list \<times> ctl" where
  "copy_to E src dst =
     (if copyfile_ok E src dst then ([Copyfile src dst, Print (MsgCopied src dst)], Normal)
      else ([Copyfile src dst], Raise OSError))"

definition fallback_copy ::
  "world \<Rightarrow> string \<Rightarrow> string \<Rightarrow> string \<Rightarrow> node list \<Rightarrow> event list \<times> ctl" where
  "fallback_copy E rmdoc_file_path temp_extract_dir final_pdf_path tree =
     pre [Print (MsgSkippingConversion rmdoc_file_path)]
       (case first_file is_original (os_walk temp_extract_dir tree) of
          Some original_file \<Rightarrow> copy_to E original_file final_pdf_path
        | None \<Rightarrow> ([Print (MsgNoOriginalFile temp_extract_dir)], Normal))"

text \<open>The \<open>else\<close> branch: the \<open>try\<close> block with its \<open>except KeyError\<close> handler.\<close>

definition notebook ::
  "world \<Rightarrow> string \<Rightarrow> string \<Rightarrow> string \<Rightarrow> node list \<Rightarrow> json \<Rightarrow> event list \<times> ctl" where
  "notebook E rmdoc_file_path temp_extract_dir final_pdf_path tree content_data =
     (case notebook_try E temp_extract_dir final_pdf_path tree content_data of
        (evs, Raise KeyError) \<Rightarrow>
          pre evs (fallback_copy E rmdoc_file_path temp_extract_dir final_pdf_path tree)
      | r \<Rightarrow> r)"

definition temp_extract_dir_of :: "world \<Rightarrow> string \<Rightarrow> string" where
  "temp_extract_dir_of E rmdoc_file_path =
     os_path_join (os_path_dirname rmdoc_file_path) (''temp_extract_'' @ uuid4 E)"

definition base_name_of :: "string \<Rightarrow> string" where
  "base_name_of rmdoc_file_path = py_replace ''.rmdoc'' [] (os_path_basename rmdoc_file_path)"

definition final_pdf_path_of :: "string \<Rightarrow> string" where
  "final_pdf_path_of rmdoc_file_path =
     os_path_join (os_path_dirname rmdoc_file_path) (base_name_of rmdoc_file_path @ ''.pdf'')"

text \<open>The body of the outer \<open>try\<close> of \<open>process_rmdoc_file\<close> (lines 266 to 363).\<close>

definition process_try :: "world \<Rightarrow> string \<Rightarrow> string \<Rightarrow> string \<Rightarrow> event list \<times> ctl" where
  "process_try E rmdoc_file_path temp_extract_dir final_pdf_path =
     (case extractall E rmdoc_file_path temp_extract_dir of
        None \<Rightarrow> ([Extractall rmdoc_file_path temp_extract_dir], Raise BadZipFile)
      | Some tree \<Rightarrow>
          pre [Extractall rmdoc_file_path temp_extract_dir, Print (MsgUnzipped temp_extract_dir)]
            (case first_file (suffix ''.content'') (os_walk temp_extract_dir tree) of
               None \<Rightarrow> ([Print MsgContentNotFound], Return)
             | Some content_file \<Rightarrow>
                 (case json_load E content_file of
                    None \<Rightarrow> ([], Raise JSONDecodeError)
                  | Some content_data \<Rightarrow>
                      (let content_uuid = path_stem content_file;
                           pdf_file_path = os_path_join temp_extract_dir (content_uuid @ ''.pdf'')
                       in if os_path_exists temp_extract_dir tree pdf_file_path
                          then pre [Print (MsgFoundImportedPdf pdf_file_path)]
                                 (copy_to E pdf_file_path final_pdf_path)
                          else notebook E rmdoc_file_path temp_extract_dir final_pdf_path
                                 tree content_data))))"

text \<open>
  \<open>process_rmdoc_file\<close> (lines 246 to 371): the \<open>try\<close> body, then the \<open>finally\<close>
  block on every way out of it, then the last report when the body ran to its end.
\<close>

definition process_rmdoc_file :: "world \<Rightarrow> string \<Rightarrow> event list \<times> outcome" where
  "process_rmdoc_file E rmdoc_file_path =
     (let temp_extract_dir = temp_extract_dir_of E rmdoc_file_path;
          final_pdf_path = final_pdf_path_of rmdoc_file_path;
          body = process_try E rmdoc_file_path temp_extract_dir final_pdf_path
      in pre ([Print (MsgStarting rmdoc_file_path)] @ fst body
              @ [Print (MsgCleaningUp temp_extract_dir), Rmtree temp_extract_dir,
                 Print MsgCleanupComplete])
           (case snd body of
              Normal \<Rightarrow> ([Print (MsgFinalPdf final_pdf_path)], Returned)
            | Return \<Rightarrow> ([], Returned)
            | Raise e \<Rightarrow> ([], Raised e)))"

section \<open>Pipeline Driver\<close>

text \<open>
  The loop \<open>for file in rmapi_file_list\<close> of the main program (lines 419 to 427).
  \<open>W i\<close> is the outside world during round \<open>i\<close>. What \<open>rmapi_download\<close> does is a
  parameter: its events and whether it returns or raises. Nothing in the loop
  catches an exception.
\<close>

fun main_loop ::
  "(nat \<Rightarrow> world) \<Rightarrow> (nat \<Rightarrow> string \<Rightarrow> string \<Rightarrow> event list \<times> outcome) \<Rightarrow> string
     \<Rightarrow> nat \<Rightarrow> string list \<Rightarrow> event list \<times> outcome" where
  "main_loop W rmapi_download output i [] = ([], Returned)"
| "main_loop W rmapi_download output i (file # rest) =
     (case rmapi_download i file output of
        (evs, Raised e) \<Rightarrow> (evs, Raised e)
      | (evs, Returned) \<Rightarrow>
          (let absolute_output_dir = abspath (W i) output;
               rmdoc_file_path = os_path_join absolute_output_dir (lstrip_slash file) @ ''.rmdoc''
           in case process_rmdoc_file (W i) rmdoc_file_path of
                (evs', Raised e) \<Rightarrow> (evs @ evs', Raised e)
              | (evs', Returned) \<Rightarrow>
                  pre (evs @ evs') (main_loop W rmapi_download output (Suc i) rest)))"

section \<open>Observations on a run\<close>

fun is_print :: "event \<Rightarrow> bool" where
  "is_print (Print m) = True"
| "is_print _ = False"

text \<open>The calls of \<open>merge_pdfs\<close> in a run, with their arguments.\<close>

fun merge_call_of :: "event \<Rightarrow> (string list \<times> string) list" where
  "merge_call_of (MergeCall pdf_list output_path) = [(pdf_list, output_path)]"
| "merge_call_of _ = []"

definition merge_calls :: "event list \<Rightarrow> (string list \<times> string) list" where
  "merge_calls evs = concat (map merge_call_of evs)"

text \<open>The output paths of the converter invocations in a run.\<close>

fun rmc_output_of :: "event \<Rightarrow> string list" where
  "rmc_output_of (Rmc out inp) = [out]"
| "rmc_output_of _ = []"

definition rmc_outputs :: "event list \<Rightarrow> string list" where
  "rmc_outputs evs = concat (map rmc_output_of evs)"

text \<open>The converter invocations in a run, as (output path, input path).\<close>

fun rmc_call_of :: "event \<Rightarrow> (string \<times> string) list" where
  "rmc_call_of (Rmc out inp) = [(out, inp)]"
| "rmc_call_of _ = []"

definition rmc_calls :: "event list \<Rightarrow> (string \<times> string) list" where
  "rmc_calls evs = concat (map rmc_call_of evs)"

text \<open>The file copies in a run, as (source, destination).\<close>

fun copy_of :: "event \<Rightarrow> (string \<times> string) list" where
  "copy_of (Copyfile src dst) = [(src, dst)]"
| "copy_of _ = []"

definition copies :: "event list \<Rightarrow> (string \<times> string) list" where
  "copies evs = concat (map copy_of evs)"

text \<open>The merged documents written in a run, as (path, pages in order).\<close>

fun pdf_write_of :: "event \<Rightarrow> (string \<times> string list) list" where
  "pdf_write_of (PdfWrite output_path pages) = [(output_path, pages)]"
| "pdf_write_of _ = []"

definition pdf_writes :: "event list \<Rightarrow> (string \<times> string list) list" where
  "pdf_writes evs = concat (map pdf_write_of evs)"

text \<open>The names of all files of a tree, at any depth.\<close>

fun all_files :: "node list \<Rightarrow> string list" where
  "all_files [] = []"
| "all_files (File n # es) = n # all_files es"
| "all_files (Dir n sub # es) = all_files sub @ all_files es"


text \<open>
  The paths of all source page entries of a page id in the tree: the files whose
  name begins with the page id and ends in \<open>.rm\<close>, as the walk reaches them.
\<close>

definition rm_matches :: "string \<Rightarrow> node list \<Rightarrow> string \<Rightarrow> string list" where
  "rm_matches temp_extract_dir tree page_id =
     concat (map (\<lambda>step. map (os_path_join (fst step)) (filter (is_rm_page page_id) (snd step)))
               (os_walk temp_extract_dir tree))"

text \<open>The output path \<open><extracted-root>/<page-id>.pdf\<close> of a page.\<close>

definition page_pdf :: "world \<Rightarrow> string \<Rightarrow> string \<Rightarrow> string" where
  "page_pdf E rmdoc_file_path page_id =
     os_path_join (temp_extract_dir_of E rmdoc_file_path) (page_id @ ''.pdf'')"

text \<open>
  The archive reaches the native-notebook branch with the page ids \<open>page_ids\<close>: it
  extracts to \<open>tree\<close>, a manifest is found and parses, no \<open><stem>.pdf\<close> exists at
  the checked path, and the manifest yields the page ids.
\<close>

definition native_notebook :: "world \<Rightarrow> string \<Rightarrow> node list \<Rightarrow> json list \<Rightarrow> bool" where
  "native_notebook E rmdoc_file_path tree page_ids =
     (let temp_extract_dir = temp_extract_dir_of E rmdoc_file_path
      in extractall E rmdoc_file_path temp_extract_dir = Some tree
         \<and> (case first_file (suffix ''.content'') (os_walk temp_extract_dir tree) of
              None \<Rightarrow> False
            | Some content_file \<Rightarrow>
                (case json_load E content_file of
                   None \<Rightarrow> False
                 | Some content_data \<Rightarrow>
                     \<not> os_path_exists temp_extract_dir tree
                         (os_path_join temp_extract_dir (path_stem content_file @ ''.pdf''))
                     \<and> page_ids_of content_data = Inr page_ids)))"



section \<open>Example inputs\<close>

definition ex_manifest :: "string list \<Rightarrow> json" where
  "ex_manifest ids =
     JObj [(''cPages'', JObj [(''pages'', JArr (map (\<lambda>s. JObj [(''id'', JStr s)]) ids))])]"

definition ex_world ::
  "node list \<Rightarrow> json option \<Rightarrow> (string \<Rightarrow> rmc_result) \<Rightarrow> (string \<Rightarrow> bool) \<Rightarrow> world" where
  "ex_world tree content conv readable =
     \<lparr>uuid4 = ''u'', extractall = (\<lambda>archive d. Some tree), json_load = (\<lambda>p. content),
      copyfile_ok = (\<lambda>src dst. True), rmc = (\<lambda>out inp. conv out), PdfMerger_is_None = False,
      pdf_append_ok = readable, pdf_write_ok = (\<lambda>p. True), abspath = (\<lambda>p. p)\<rparr>"

definition ex_path :: string where
  "ex_path = ''/out/N.rmdoc''"

text \<open>An archive with the rendered document beside the manifest, at the root.\<close>

definition ex_embedded :: world where
  "ex_embedded =
     ex_world [File ''X.content'', File ''X.pdf'', File ''p1.rm'']
       (Some (ex_manifest [''p1''])) (\<lambda>out. RmcOk) (\<lambda>p. True)"

text \<open>The same entries one directory down.\<close>

definition ex_nested_tree :: "node list" where
  "ex_nested_tree = [Dir ''d'' [File ''X.content'', File ''X.pdf'', File ''p1.rm'']]"

definition ex_nested :: world where
  "ex_nested = ex_world ex_nested_tree (Some (ex_manifest [''p1''])) (\<lambda>out. RmcOk) (\<lambda>p. True)"

text \<open>A notebook of three pages, listed on disk in another order than in the manifest.\<close>

definition ex_ordered_tree :: "node list" where
  "ex_ordered_tree = [File ''b.rm'', File ''X.content'', File ''c.rm'', Dir ''s'' [File ''a.rm'']]"

definition ex_ordered :: world where
  "ex_ordered =
     ex_world ex_ordered_tree (Some (ex_manifest [''c'', ''a'', ''b''])) (\<lambda>out. RmcOk) (\<lambda>p. True)"



text \<open>
  A notebook whose page \<open>b\<close> fails to convert: the converter exits with an error
  for it and leaves no output file, so the merger cannot read \<open>b.pdf\<close>.
\<close>

definition ex_midfail_tree :: "node list" where
  "ex_midfail_tree = [File ''X.content'', File ''a.rm'', File ''b.rm'', File ''c.rm'']"

definition ex_midfail :: world where
  "ex_midfail =
     ex_world ex_midfail_tree (Some (ex_manifest [''a'', ''b'', ''c'']))
       (\<lambda>out. if out = ''/out/temp_extract_u/b.pdf'' then RmcCalledProcessError else RmcOk)
       (\<lambda>p. p \<noteq> ''/out/temp_extract_u/b.pdf'')"

text \<open>
  Two notebooks with the same entries in two orders on disk; the page id \<open>a\<close> is
  the beginning of the name of the source entry of page \<open>ab\<close>.
\<close>

definition ex_prefix_tree1 :: "node list" where
  "ex_prefix_tree1 = [File ''X.content'', File ''ab.rm'', File ''a.rm'']"

definition ex_prefix_tree2 :: "node list" where
  "ex_prefix_tree2 = [File ''X.content'', File ''a.rm'', File ''ab.rm'']"

definition ex_prefix1 :: world where
  "ex_prefix1 =
     ex_world ex_prefix_tree1 (Some (ex_manifest [''a'', ''ab''])) (\<lambda>out. RmcOk) (\<lambda>p. True)"

definition ex_prefix2 :: world where
  "ex_prefix2 =
     ex_world ex_prefix_tree2 (Some (ex_manifest [''a'', ''ab''])) (\<lambda>out. RmcOk) (\<lambda>p. True)"

text \<open>The same notebook with its entries in another order on disk.\<close>

definition ex_reordered_tree :: "node list" where
  "ex_reordered_tree = [Dir ''s'' [File ''a.rm''], File ''c.rm'', File ''X.content'', File ''b.rm'']"

definition ex_reordered :: world where
  "ex_reordered =
     ex_world ex_reordered_tree (Some (ex_manifest [''c'', ''a'', ''b''])) (\<lambda>out. RmcOk) (\<lambda>p. True)"

text \<open>The source entry of each page of the notebooks \<open>ex_ordered\<close> and \<open>ex_reordered\<close>.\<close>

definition ex_ordered_src :: "string \<Rightarrow> string" where
  "ex_ordered_src page_id =
     (if page_id = ''a'' then ''/out/temp_extract_u/s/a.rm''
      else ''/out/temp_extract_u/'' @ page_id @ ''.rm'')"

text \<open>
  A notebook of one page whose conversion fails: the converter exits with an
  error and leaves no output file.
\<close>

definition ex_allfail :: world where
  "ex_allfail =
     ex_world [File ''X.content'', File ''p1.rm''] (Some (ex_manifest [''p1'']))
       (\<lambda>out. RmcCalledProcessError) (\<lambda>p. False)"

text \<open>A notebook with a single page.\<close>

definition ex_single :: world where
  "ex_single =
     ex_world [File ''X.content'', File ''p1.rm''] (Some (ex_manifest [''p1'']))
       (\<lambda>out. RmcOk) (\<lambda>p. True)"

text \<open>An archive whose manifest is not JSON.\<close>

definition ex_invalid :: world where
  "ex_invalid = ex_world [File ''X.content'', File ''p1.rm''] None (\<lambda>out. RmcOk) (\<lambda>p. True)"




section \<open>Listing Parser: the two sequences\<close>

lemma not_both_tags: "\<not> (prefix ''[d] '' l \<and> prefix ''[f] '' l)"
  by (auto simp: prefix_def)

lemma parse_lines_eq:
  "parse_lines ls (ds, fs) =
     (ds @ map (drop 4) (filter (prefix ''[d] '') ls),
      fs @ map (drop 4) (filter (prefix ''[f] '') ls))"
proof (induction ls arbitrary: ds fs)
  case Nil
  show ?case by simp
next
  case (Cons l ls)
  have "\<not> (prefix ''[d] '' l \<and> prefix ''[f] '' l)" by (rule not_both_tags)
  moreover have "l = [] \<Longrightarrow> \<not> prefix ''[d] '' l \<and> \<not> prefix ''[f] '' l" by simp
  ultimately show ?case using Cons.IH by auto
qed

lemma length_filter_either:
  assumes "\<And>x. \<not> (P x \<and> Q x)"
  shows "length (filter P xs) + length (filter Q xs) = length (filter (\<lambda>x. P x \<or> Q x) xs)"
  using assms by (induction xs) auto

lemma remainder_mem:
  assumes "length tag = 4"
  shows "p \<in> set (map (drop 4) (filter (prefix tag) ls)) \<longleftrightarrow> tag @ p \<in> set ls"
proof
  assume "p \<in> set (map (drop 4) (filter (prefix tag) ls))"
  then obtain l where l: "l \<in> set ls" "prefix tag l" "p = drop 4 l"
    by auto
  from l(2) obtain r where "l = tag @ r"
    by (auto simp: prefix_def)
  with l(3) assms have "l = tag @ p" by simp
  with l(1) show "tag @ p \<in> set ls" by simp
next
  assume "tag @ p \<in> set ls"
  moreover have "prefix tag (tag @ p)" "drop 4 (tag @ p) = p"
    using assms by simp_all
  ultimately show "p \<in> set (map (drop 4) (filter (prefix tag) ls))"
    by force
qed

text \<open>
  Claim C9, as amended. The lines are those of the input text after whitespace has
  been removed at both ends of the whole text. Each line that begins with \<open>[d] \<close>
  gives its remainder to the directories, each line that begins with \<open>[f] \<close> gives
  its remainder to the files, in input order; every other line gives nothing.
  Each tagged line gives to exactly one of the two sequences. A path is in both
  sequences exactly when the lines hold it under both tags; so when no path is
  tagged both ways, no path is in both sequences. The empty input yields two
  empty sequences.
\<close>

theorem parse_rmapi_find_stripped_lines:
  "parse_rmapi_find s =
     (map (drop 4) (filter (prefix ''[d] '') (py_split CHR 0x0A (py_strip s))),
      map (drop 4) (filter (prefix ''[f] '') (py_split CHR 0x0A (py_strip s))))
   \<and> length (fst (parse_rmapi_find s)) + length (snd (parse_rmapi_find s)) =
       length (filter (\<lambda>l. prefix ''[d] '' l \<or> prefix ''[f] '' l) (py_split CHR 0x0A (py_strip s)))
   \<and> (\<forall>p. (p \<in> set (fst (parse_rmapi_find s)) \<and> p \<in> set (snd (parse_rmapi_find s))) =
            (''[d] '' @ p \<in> set (py_split CHR 0x0A (py_strip s))
             \<and> ''[f] '' @ p \<in> set (py_split CHR 0x0A (py_strip s))))
   \<and> ((\<forall>p. \<not> (''[d] '' @ p \<in> set (py_split CHR 0x0A (py_strip s))
              \<and> ''[f] '' @ p \<in> set (py_split CHR 0x0A (py_strip s)))) \<longrightarrow>
        set (fst (parse_rmapi_find s)) \<inter> set (snd (parse_rmapi_find s)) = {})
   \<and> parse_rmapi_find [] = ([], [])"
proof -
  let ?ls = "py_split CHR 0x0A (py_strip s)"
  let ?ds = "map (drop 4) (filter (prefix ''[d] '') ?ls)"
  let ?fs = "map (drop 4) (filter (prefix ''[f] '') ?ls)"
  have eq: "parse_rmapi_find s = (?ds, ?fs)"
    by (simp add: parse_rmapi_find_def parse_lines_eq)
  have len: "length ?ds + length ?fs =
      length (filter (\<lambda>l. prefix ''[d] '' l \<or> prefix ''[f] '' l) ?ls)"
    using length_filter_either [of "prefix ''[d] ''" "prefix ''[f] ''" ?ls] not_both_tags
    by simp
  have both: "(p \<in> set ?ds \<and> p \<in> set ?fs) = (''[d] '' @ p \<in> set ?ls \<and> ''[f] '' @ p \<in> set ?ls)" for p
    using remainder_mem [of "''[d] ''" p ?ls] remainder_mem [of "''[f] ''" p ?ls] by simp
  have disj: "(\<forall>p. \<not> (''[d] '' @ p \<in> set ?ls \<and> ''[f] '' @ p \<in> set ?ls)) \<longrightarrow> set ?ds \<inter> set ?fs = {}"
    using both by blast
  have emp: "parse_rmapi_find [] = ([], [])"
    by (simp add: parse_rmapi_find_def py_strip_def)
  show ?thesis
    unfolding eq fst_conv snd_conv using len both disj emp by blast
qed

theorem parse_rmapi_find_stripped_lines_witness:
  "py_split CHR 0x0A (py_strip (''[d] /Notes'' @ [CHR 0x0A] @ ''[f] /Notes/Quarterly'' @ [CHR 0x0A]))
     = [''[d] /Notes'', ''[f] /Notes/Quarterly'']
   \<and> parse_rmapi_find (''[d] /Notes'' @ [CHR 0x0A] @ ''[f] /Notes/Quarterly'' @ [CHR 0x0A])
     = ([''/Notes''], [''/Notes/Quarterly''])
   \<and> set (fst (parse_rmapi_find (''[d] /Notes'' @ [CHR 0x0A] @ ''[f] /Notes/Quarterly'' @ [CHR 0x0A])))
       \<inter> set (snd (parse_rmapi_find (''[d] /Notes'' @ [CHR 0x0A] @ ''[f] /Notes/Quarterly'' @ [CHR 0x0A])))
     = {}"
proof -
  let ?s = "''[d] /Notes'' @ [CHR 0x0A] @ ''[f] /Notes/Quarterly'' @ [CHR 0x0A]"
  have ls: "py_split CHR 0x0A (py_strip ?s) = [''[d] /Notes'', ''[f] /Notes/Quarterly'']"
    by code_simp
  have h: "\<forall>p. \<not> (''[d] '' @ p \<in> set (py_split CHR 0x0A (py_strip ?s))
              \<and> ''[f] '' @ p \<in> set (py_split CHR 0x0A (py_strip ?s)))"
    unfolding ls by auto
  have e: "parse_rmapi_find ?s = ([''/Notes''], [''/Notes/Quarterly''])"
    by code_simp
  from parse_rmapi_find_stripped_lines [of ?s] h
  have "set (fst (parse_rmapi_find ?s)) \<inter> set (snd (parse_rmapi_find ?s)) = {}"
    by blast
  with ls e show ?thesis by blast
qed

text \<open>
  Claim C9 as stated fails at two inputs. The one-line input \<open>[d] /a \<close> (with a
  space at the end) begins with the directory tag and its remainder is \<open>/a \<close>,
  which is not among the directories; the parser yields \<open>/a\<close>. The two-line input
  \<open>[d] /x\<close>, \<open>[f] /x\<close> puts the path \<open>/x\<close> of each of its lines into both
  sequences.
\<close>

theorem parse_rmapi_find_counterexample:
  "py_split CHR 0x0A ''[d] /a '' = [''[d] /a '']
   \<and> prefix ''[d] '' ''[d] /a ''
   \<and> drop 4 ''[d] /a '' \<notin> set (fst (parse_rmapi_find ''[d] /a ''))
   \<and> parse_rmapi_find ''[d] /a '' = ([''/a''], [])
   \<and> py_split CHR 0x0A (''[d] /x'' @ [CHR 0x0A] @ ''[f] /x'') = [''[d] /x'', ''[f] /x'']
   \<and> parse_rmapi_find (''[d] /x'' @ [CHR 0x0A] @ ''[f] /x'') = ([''/x''], [''/x''])
   \<and> ''/x'' \<in> set (fst (parse_rmapi_find (''[d] /x'' @ [CHR 0x0A] @ ''[f] /x'')))
   \<and> ''/x'' \<in> set (snd (parse_rmapi_find (''[d] /x'' @ [CHR 0x0A] @ ''[f] /x'')))"
  by code_simp

section \<open>The final output path\<close>

text \<open>
  When the archive suffix occurs in the base name only at its end, removing every
  occurrence removes the extension, and the final path is the archive's path with
  the extension replaced.
\<close>

lemma py_replace_suffix_only:
  assumes "old \<noteq> []"
    and "\<forall>i < length stem. \<not> prefix old (drop i (stem @ old))"
  shows "py_replace old [] (stem @ old) = stem"
  using assms(2)
proof (induction stem)
  case Nil
  have "py_replace old [] [] = []"
    using assms(1) by (subst py_replace.simps) simp
  then show ?case
    using assms(1) by (subst py_replace.simps) simp
next
  case (Cons c cs)
  from Cons.prems have np: "\<not> prefix old ((c # cs) @ old)"
    by (auto dest: spec [of _ 0])
  have step: "py_replace old [] ((c # cs) @ old) = c # py_replace old [] (cs @ old)"
    using assms(1) np by (subst py_replace.simps) simp
  have "\<forall>i < length cs. \<not> prefix old (drop i (cs @ old))"
  proof (intro allI impI)
    fix i assume "i < length cs"
    with Cons.prems have "\<not> prefix old (drop (Suc i) ((c # cs) @ old))"
      by (auto dest: spec [of _ "Suc i"])
    then show "\<not> prefix old (drop i (cs @ old))" by simp
  qed
  with Cons.IH step show ?case by simp
qed

lemma final_pdf_path_plain_name:
  assumes "os_path_basename p = stem @ ''.rmdoc''"
    and "\<forall>i < length stem. \<not> prefix ''.rmdoc'' (drop i (stem @ ''.rmdoc''))"
  shows "final_pdf_path_of p = os_path_join (os_path_dirname p) (stem @ ''.pdf'')"
proof -
  have "py_replace ''.rmdoc'' [] (stem @ ''.rmdoc'') = stem"
    using assms(2) by (intro py_replace_suffix_only) simp_all
  then show ?thesis
    by (simp only: final_pdf_path_of_def base_name_of_def assms(1))
qed

text \<open>
  Claim C7 at the archive path \<open>/out/a.rmdoc.rmdoc\<close>, the archive of the remote
  document \<open>/a.rmdoc\<close>: replacing the extension at the end of the name gives
  \<open>/out/a.rmdoc.pdf\<close>, the program computes \<open>/out/a.pdf\<close>.
\<close>

theorem final_pdf_path_inner_suffix:
  "os_path_join (abspath ex_single ''/out'') (lstrip_slash ''/a.rmdoc'') @ ''.rmdoc''
     = ''/out/a.rmdoc.rmdoc''
   \<and> final_pdf_path_of ''/out/a.rmdoc.rmdoc'' = ''/out/a.pdf''"
  by code_simp

section \<open>Cleanup\<close>

text \<open>
  Claim C6. On every run of \<open>process_rmdoc_file\<close>, whatever the outside world
  answers and however the run ends, the removal of the extraction directory
  happens, and nothing but reports follows it.
\<close>

theorem cleanup_is_last_effect:
  "filter (\<lambda>e. \<not> is_print e) (fst (process_rmdoc_file E p)) \<noteq> []
   \<and> last (filter (\<lambda>e. \<not> is_print e) (fst (process_rmdoc_file E p)))
       = Rmtree (temp_extract_dir_of E p)"
  by (cases "snd (process_try E p (temp_extract_dir_of E p) (final_pdf_path_of p))")
     (simp_all add: process_rmdoc_file_def Let_def pre_def)

theorem cleanup_is_last_effect_witness:
  "rmc_outputs (fst (process_rmdoc_file ex_midfail ex_path))
     = [''/out/temp_extract_u/a.pdf'', ''/out/temp_extract_u/b.pdf'', ''/out/temp_extract_u/c.pdf'']
   \<and> rmc ex_midfail ''/out/temp_extract_u/b.pdf'' ''/out/temp_extract_u/b.rm'' = RmcCalledProcessError
   \<and> last (filter (\<lambda>e. \<not> is_print e) (fst (process_rmdoc_file ex_midfail ex_path)))
       = Rmtree ''/out/temp_extract_u''"
proof -
  have e1: "temp_extract_dir_of ex_midfail ex_path = ''/out/temp_extract_u''"
    by code_simp
  have e2: "rmc_outputs (fst (process_rmdoc_file ex_midfail ex_path))
     = [''/out/temp_extract_u/a.pdf'', ''/out/temp_extract_u/b.pdf'', ''/out/temp_extract_u/c.pdf'']"
    by code_simp
  have e3: "rmc ex_midfail ''/out/temp_extract_u/b.pdf'' ''/out/temp_extract_u/b.rm'' = RmcCalledProcessError"
    by code_simp
  show ?thesis
    using cleanup_is_last_effect [of ex_midfail ex_path] e2 e3 unfolding e1 by simp
qed

section \<open>Tree Mirror: what a run does\<close>






section \<open>Observations distribute over the events\<close>

lemma merge_calls_append [simp]: "merge_calls (a @ b) = merge_calls a @ merge_calls b"
  by (simp add: merge_calls_def)
lemma merge_calls_Nil [simp]: "merge_calls [] = []"
  by (simp add: merge_calls_def)
lemma merge_calls_Cons [simp]: "merge_calls (e # es) = merge_call_of e @ merge_calls es"
  by (simp add: merge_calls_def)

lemma rmc_outputs_append [simp]: "rmc_outputs (a @ b) = rmc_outputs a @ rmc_outputs b"
  by (simp add: rmc_outputs_def)
lemma rmc_outputs_Nil [simp]: "rmc_outputs [] = []"
  by (simp add: rmc_outputs_def)
lemma rmc_outputs_Cons [simp]: "rmc_outputs (e # es) = rmc_output_of e @ rmc_outputs es"
  by (simp add: rmc_outputs_def)

lemma rmc_calls_append [simp]: "rmc_calls (a @ b) = rmc_calls a @ rmc_calls b"
  by (simp add: rmc_calls_def)
lemma rmc_calls_Nil [simp]: "rmc_calls [] = []"
  by (simp add: rmc_calls_def)
lemma rmc_calls_Cons [simp]: "rmc_calls (e # es) = rmc_call_of e @ rmc_calls es"
  by (simp add: rmc_calls_def)

lemma copies_append [simp]: "copies (a @ b) = copies a @ copies b"
  by (simp add: copies_def)
lemma copies_Nil [simp]: "copies [] = []"
  by (simp add: copies_def)
lemma copies_Cons [simp]: "copies (e # es) = copy_of e @ copies es"
  by (simp add: copies_def)

lemma pdf_writes_append [simp]: "pdf_writes (a @ b) = pdf_writes a @ pdf_writes b"
  by (simp add: pdf_writes_def)
lemma pdf_writes_Nil [simp]: "pdf_writes [] = []"
  by (simp add: pdf_writes_def)
lemma pdf_writes_Cons [simp]: "pdf_writes (e # es) = pdf_write_of e @ pdf_writes es"
  by (simp add: pdf_writes_def)

section \<open>The search loops\<close>







lemma first_file_matches:
  "first_file P w =
     (case concat (map (\<lambda>step. map (os_path_join (fst step)) (filter P (snd step))) w) of
        [] \<Rightarrow> None
      | x # xs \<Rightarrow> Some x)"
proof (induction P w rule: first_file.induct)
  case (1 P)
  show ?case by simp
next
  case (2 P root files rest)
  show ?case
  proof (cases "find P files")
    case None
    then have "filter P files = []"
      by (simp add: find_None_iff filter_empty_conv)
    with None "2.IH" [OF None] show ?thesis by simp
  next
    case (Some fl)
    then obtain fs where "filter P files = fl # fs"
      by (induction files) (auto split: if_splits)
    with Some show ?thesis by simp
  qed
qed

lemma first_file_unique:
  assumes "set (rm_matches ted tree s) = {src}"
  shows "first_file (is_rm_page s) (os_walk ted tree) = Some src"
proof (cases "rm_matches ted tree s")
  case Nil
  with assms show ?thesis by simp
next
  case (Cons x xs)
  with assms have "x = src" by auto
  with Cons show ?thesis
    by (simp add: first_file_matches [of "is_rm_page s" "os_walk ted tree"] rm_matches_def
          del: os_walk.simps)
qed

section \<open>Page Reconstructor: the list handed on\<close>

lemma convert_page_no_merge:
  "merge_calls (fst (convert_page E ted tree page_id acc)) = []"
  "copies (fst (convert_page E ted tree page_id acc)) = []"
  "pdf_writes (fst (convert_page E ted tree page_id acc)) = []"
  by (simp_all add: convert_page_def Let_def del: os_walk.simps
        split: json.split option.split rmc_result.split)

lemma convert_pages_no_merge:
  "merge_calls (fst (convert_pages E ted tree page_ids acc)) = []
   \<and> copies (fst (convert_pages E ted tree page_ids acc)) = []
   \<and> pdf_writes (fst (convert_pages E ted tree page_ids acc)) = []"
proof (induction page_ids arbitrary: acc)
  case Nil
  show ?case by simp
next
  case (Cons page_id rest)
  obtain evs r where cp: "convert_page E ted tree page_id acc = (evs, r)"
    by (cases "convert_page E ted tree page_id acc")
  have m: "merge_calls evs = []" "copies evs = []" "pdf_writes evs = []"
    using convert_page_no_merge [of E ted tree page_id acc] by (simp_all add: cp)
  show ?case
  proof (cases r)
    case (Inl e)
    with cp m show ?thesis by simp
  next
    case (Inr acc')
    with cp m Cons.IH [of acc'] show ?thesis by (simp add: pre_def)
  qed
qed




text \<open>
  When every page id has exactly one source entry and every conversion succeeds,
  the converter runs once for each page id, in the order of the list, from that
  entry.
\<close>

lemma convert_pages_unique:
  assumes "\<forall>s \<in> set ids. set (rm_matches ted tree s) = {src s}"
    and "\<forall>s \<in> set ids. rmc E (os_path_join ted (s @ ''.pdf'')) (src s) = RmcOk"
  shows "snd (convert_pages E ted tree (map JStr ids) acc) =
           Inr (acc @ map (\<lambda>s. os_path_join ted (s @ ''.pdf'')) ids)
     \<and> rmc_calls (fst (convert_pages E ted tree (map JStr ids) acc)) =
           map (\<lambda>s. (os_path_join ted (s @ ''.pdf''), src s)) ids"
  using assms
proof (induction ids arbitrary: acc)
  case Nil
  show ?case by simp
next
  case (Cons s rest)
  let ?out = "os_path_join ted (s @ ''.pdf'')"
  from Cons.prems have "set (rm_matches ted tree s) = {src s}"
    by simp
  then have ff: "first_file (is_rm_page s) (os_walk ted tree) = Some (src s)"
    by (rule first_file_unique)
  from Cons.prems have ok: "rmc E ?out (src s) = RmcOk"
    by simp
  have cp: "convert_page E ted tree (JStr s) acc =
      ([Print (MsgConverting (src s) ?out), Rmc ?out (src s), Print MsgConversionSuccessful],
       Inr (acc @ [?out]))"
    by (simp add: convert_page_def ff ok Let_def del: os_walk.simps)
  from Cons.prems have r1: "\<forall>s \<in> set rest. set (rm_matches ted tree s) = {src s}"
    and r2: "\<forall>s \<in> set rest. rmc E (os_path_join ted (s @ ''.pdf'')) (src s) = RmcOk"
    by simp_all
  show ?case
    using Cons.IH [OF r1 r2, of "acc @ [?out]"] by (simp add: cp pre_def)
qed

section \<open>Merger: calls and written documents\<close>

lemma append_all_events:
  "merge_calls (fst (append_all E m l)) = [] \<and> pdf_writes (fst (append_all E m l)) = []"
  by (induction l arbitrary: m) (simp_all add: pre_def)

lemma append_all_ok:
  "\<forall>f \<in> set l. pdf_append_ok E f \<Longrightarrow> snd (append_all E m l) = Some (m @ l)"
  by (induction l arbitrary: m) (simp_all add: pre_def)

lemma merge_pdfs_calls:
  "merge_calls (fst (merge_pdfs E l d)) = [(l, d)]"
proof (cases "append_all E [] l")
  case (Pair evs r)
  with append_all_events [of E "[]" l] have "merge_calls evs = []" by simp
  with Pair show ?thesis
    by (cases r) (simp_all add: merge_pdfs_def pre_def)
qed

lemma merge_pdfs_writes:
  assumes "\<not> PdfMerger_is_None E" "\<forall>f \<in> set l. pdf_append_ok E f" "pdf_write_ok E d"
  shows "pdf_writes (fst (merge_pdfs E l d)) = [(d, l)]"
proof (cases "append_all E [] l")
  case (Pair evs r)
  with append_all_events [of E "[]" l] have "pdf_writes evs = []" by simp
  moreover from Pair append_all_ok [OF assms(2), of "[]"] have "r = Some l" by simp
  ultimately show ?thesis
    using Pair assms(1,3) by (simp add: merge_pdfs_def pre_def)
qed

lemma merge_pdfs_no_rmc:
  "rmc_outputs (fst (merge_pdfs E l d)) = []"
proof (cases "append_all E [] l")
  case (Pair evs r)
  have "rmc_outputs (fst (append_all E m l)) = []" for m
    by (induction l arbitrary: m) (simp_all add: pre_def)
  from this [of "[]"] Pair have "rmc_outputs evs = []" by simp
  with Pair show ?thesis
    by (cases r) (simp_all add: merge_pdfs_def pre_def)
qed

lemma merge_pdfs_no_rmc_calls:
  "rmc_calls (fst (merge_pdfs E l d)) = []"
proof (cases "append_all E [] l")
  case (Pair evs r)
  have "rmc_calls (fst (append_all E m l)) = []" for m
    by (induction l arbitrary: m) (simp_all add: pre_def)
  from this [of "[]"] Pair have "rmc_calls evs = []" by simp
  with Pair show ?thesis
    by (cases r) (simp_all add: merge_pdfs_def pre_def)
qed

section \<open>A run through the native-notebook branch\<close>

lemma process_native:
  assumes nn: "native_notebook E p tree page_ids"
    and cp: "convert_pages E (temp_extract_dir_of E p) tree page_ids [] = (evs, Inr pdf_pages)"
  shows "process_rmdoc_file E p =
     (if pdf_pages = [] then
        ([Print (MsgStarting p), Extractall p (temp_extract_dir_of E p),
          Print (MsgUnzipped (temp_extract_dir_of E p)), Print (MsgExtractedPageIds page_ids)]
         @ evs
         @ [Print MsgNoPages, Print (MsgCleaningUp (temp_extract_dir_of E p)),
            Rmtree (temp_extract_dir_of E p), Print MsgCleanupComplete], Returned)
      else
        ([Print (MsgStarting p), Extractall p (temp_extract_dir_of E p),
          Print (MsgUnzipped (temp_extract_dir_of E p)), Print (MsgExtractedPageIds page_ids)]
         @ evs
         @ [Print (MsgJoining (length pdf_pages) (final_pdf_path_of p))]
         @ fst (merge_pdfs E pdf_pages (final_pdf_path_of p))
         @ [Print (MsgCleaningUp (temp_extract_dir_of E p)),
            Rmtree (temp_extract_dir_of E p), Print MsgCleanupComplete,
            Print (MsgFinalPdf (final_pdf_path_of p))], Returned))"
proof -
  let ?ted = "temp_extract_dir_of E p"
  from nn have ex: "extractall E p ?ted = Some tree"
    by (simp add: native_notebook_def Let_def)
  from nn obtain cf where cf: "first_file (suffix ''.content'') (os_walk ?ted tree) = Some cf"
    by (auto simp: native_notebook_def Let_def simp del: os_walk.simps split: option.splits)
  from nn cf obtain j where j: "json_load E cf = Some j"
    by (auto simp: native_notebook_def Let_def simp del: os_walk.simps split: option.splits)
  from nn cf j have nopdf: "\<not> os_path_exists ?ted tree (os_path_join ?ted (path_stem cf @ ''.pdf''))"
    and ids: "page_ids_of j = Inr page_ids"
    by (auto simp: native_notebook_def Let_def simp del: os_walk.simps)
  have nt: "notebook E p ?ted (final_pdf_path_of p) tree j =
      (if pdf_pages = [] then ([Print (MsgExtractedPageIds page_ids)] @ evs @ [Print MsgNoPages], Return)
       else ([Print (MsgExtractedPageIds page_ids)] @ evs
             @ [Print (MsgJoining (length pdf_pages) (final_pdf_path_of p))]
             @ fst (merge_pdfs E pdf_pages (final_pdf_path_of p)), Normal))"
    by (simp add: notebook_def notebook_try_def ids cp pre_def)
  have pt: "process_try E p ?ted (final_pdf_path_of p) =
      pre [Extractall p ?ted, Print (MsgUnzipped ?ted)]
        (notebook E p ?ted (final_pdf_path_of p) tree j)"
    by (simp add: process_try_def ex cf j nopdf Let_def del: os_walk.simps)
  show ?thesis
    by (simp add: process_rmdoc_file_def Let_def pt nt pre_def)
qed

text \<open>
  The branch after the loop, on the list \<open>pdf_pages\<close> of the program: an empty list
  gives the report and an early return with no call of \<open>merge_pdfs\<close>; any other
  list gives one call of \<open>merge_pdfs\<close> with it. The list holds the output path of
  every page whose source entry was found, converted or not.
\<close>

lemma pdf_pages_empty_or_merged:
  assumes "native_notebook E p tree page_ids"
    and "convert_pages E (temp_extract_dir_of E p) tree page_ids [] = (evs, Inr pdf_pages)"
  shows "(pdf_pages = [] \<longrightarrow>
            process_rmdoc_file E p =
              ([Print (MsgStarting p), Extractall p (temp_extract_dir_of E p),
                Print (MsgUnzipped (temp_extract_dir_of E p)), Print (MsgExtractedPageIds page_ids)]
               @ evs
               @ [Print MsgNoPages, Print (MsgCleaningUp (temp_extract_dir_of E p)),
                  Rmtree (temp_extract_dir_of E p), Print MsgCleanupComplete], Returned)
            \<and> merge_calls (fst (process_rmdoc_file E p)) = [])
       \<and> (pdf_pages \<noteq> [] \<longrightarrow>
            merge_calls (fst (process_rmdoc_file E p)) = [(pdf_pages, final_pdf_path_of p)])"
proof -
  have "merge_calls evs = []"
    using convert_pages_no_merge [of E "temp_extract_dir_of E p" tree page_ids "[]"] assms(2)
    by simp
  then show ?thesis
    by (simp add: process_native [OF assms] merge_pdfs_calls)
qed

text \<open>
  Claim C5 at a notebook of one page whose conversion fails. No page is
  produced, so the claim has the run abort with the report that no pages were
  created and \<open>merge_pdfs\<close> not called. The program has appended the path before
  the conversion, finds its list not empty, does not give that report and calls
  \<open>merge_pdfs\<close> with the path of the page that was not produced; the merger fails
  on it and no document is written.
\<close>

theorem no_pages_produced_still_merged:
  "native_notebook ex_allfail ex_path [File ''X.content'', File ''p1.rm''] [JStr ''p1'']
   \<and> rmc ex_allfail ''/out/temp_extract_u/p1.pdf'' ''/out/temp_extract_u/p1.rm''
        = RmcCalledProcessError
   \<and> rmc_calls (fst (process_rmdoc_file ex_allfail ex_path)) =
        [(''/out/temp_extract_u/p1.pdf'', ''/out/temp_extract_u/p1.rm'')]
   \<and> Print MsgErrorConvertingPage \<in> set (fst (process_rmdoc_file ex_allfail ex_path))
   \<and> Print MsgNoPages \<notin> set (fst (process_rmdoc_file ex_allfail ex_path))
   \<and> merge_calls (fst (process_rmdoc_file ex_allfail ex_path)) =
        [([''/out/temp_extract_u/p1.pdf''], ''/out/N.pdf'')]
   \<and> pdf_writes (fst (process_rmdoc_file ex_allfail ex_path)) = []
   \<and> process_rmdoc_file ex_allfail ex_path =
        ([Print (MsgStarting ''/out/N.rmdoc''),
          Extractall ''/out/N.rmdoc'' ''/out/temp_extract_u'',
          Print (MsgUnzipped ''/out/temp_extract_u''),
          Print (MsgExtractedPageIds [JStr ''p1'']),
          Print (MsgConverting ''/out/temp_extract_u/p1.rm'' ''/out/temp_extract_u/p1.pdf''),
          Rmc ''/out/temp_extract_u/p1.pdf'' ''/out/temp_extract_u/p1.rm'',
          Print MsgErrorConvertingPage,
          Print (MsgJoining 1 ''/out/N.pdf''),
          MergeCall [''/out/temp_extract_u/p1.pdf''] ''/out/N.pdf'',
          PdfAppend ''/out/temp_extract_u/p1.pdf'',
          Print MsgMergeError,
          Print (MsgCleaningUp ''/out/temp_extract_u''),
          Rmtree ''/out/temp_extract_u'', Print MsgCleanupComplete,
          Print (MsgFinalPdf ''/out/N.pdf'')], Returned)"
  by code_simp

text \<open>
  Claim C3, as amended. For a native notebook whose manifest lists the page ids
  \<open>ids\<close> (not empty), when every page id has exactly one source entry in the tree
  (\<open>src\<close> gives its path) and every conversion succeeds: the converter runs once
  for each page id, in the order of the manifest, from that page's entry to that
  page's output path; \<open>merge_pdfs\<close> is called once with the output paths in the
  order of the manifest; and when the merger can read them and write the output,
  the one document written has the pages in that order. The hypotheses speak of
  the set of source entries only, and the result is given by \<open>ids\<close> and \<open>src\<close>:
  it does not depend on the order of the entries on disk.
\<close>

theorem page_order_is_manifest_order:
  assumes "native_notebook E p tree (map JStr ids)"
    and "ids \<noteq> []"
    and "\<forall>s \<in> set ids. set (rm_matches (temp_extract_dir_of E p) tree s) = {src s}"
    and "\<forall>s \<in> set ids. rmc E (page_pdf E p s) (src s) = RmcOk"
  shows "rmc_calls (fst (process_rmdoc_file E p)) = map (\<lambda>s. (page_pdf E p s, src s)) ids
     \<and> merge_calls (fst (process_rmdoc_file E p)) = [(map (page_pdf E p) ids, final_pdf_path_of p)]
     \<and> (\<not> PdfMerger_is_None E \<and> (\<forall>s \<in> set ids. pdf_append_ok E (page_pdf E p s))
          \<and> pdf_write_ok E (final_pdf_path_of p) \<longrightarrow>
        pdf_writes (fst (process_rmdoc_file E p)) = [(final_pdf_path_of p, map (page_pdf E p) ids)])"
proof -
  let ?ted = "temp_extract_dir_of E p"
  let ?out = "\<lambda>s. os_path_join ?ted (s @ ''.pdf'')"
  have out: "page_pdf E p = ?out"
    by (simp add: page_pdf_def fun_eq_iff)
  from assms(4) have ok: "\<forall>s \<in> set ids. rmc E (?out s) (src s) = RmcOk"
    by (simp add: page_pdf_def)
  obtain evs r where cp: "convert_pages E ?ted tree (map JStr ids) [] = (evs, r)"
    by (cases "convert_pages E ?ted tree (map JStr ids) []")
  from convert_pages_unique [OF assms(3) ok, of "[]"]
  have r: "r = Inr (map ?out ids)" and c: "rmc_calls evs = map (\<lambda>s. (?out s, src s)) ids"
    by (simp_all add: cp)
  have nm: "merge_calls evs = []" "pdf_writes evs = []"
    using convert_pages_no_merge [of E ?ted tree "map JStr ids" "[]"] by (simp_all add: cp)
  note pn = process_native [OF assms(1) cp [unfolded r]]
  show ?thesis
    using assms(2)
    by (simp add: pn nm c merge_pdfs_calls merge_pdfs_writes merge_pdfs_no_rmc_calls out)
qed

theorem page_order_is_manifest_order_witness:
  "native_notebook ex_ordered ex_path ex_ordered_tree [JStr ''c'', JStr ''a'', JStr ''b'']
   \<and> all_files ex_ordered_tree = [''b.rm'', ''X.content'', ''c.rm'', ''a.rm'']
   \<and> rm_matches ''/out/temp_extract_u'' ex_ordered_tree ''c'' = [''/out/temp_extract_u/c.rm'']
   \<and> rm_matches ''/out/temp_extract_u'' ex_ordered_tree ''a'' = [''/out/temp_extract_u/s/a.rm'']
   \<and> rm_matches ''/out/temp_extract_u'' ex_ordered_tree ''b'' = [''/out/temp_extract_u/b.rm'']
   \<and> rmc_calls (fst (process_rmdoc_file ex_ordered ex_path)) =
        [(''/out/temp_extract_u/c.pdf'', ''/out/temp_extract_u/c.rm''),
         (''/out/temp_extract_u/a.pdf'', ''/out/temp_extract_u/s/a.rm''),
         (''/out/temp_extract_u/b.pdf'', ''/out/temp_extract_u/b.rm'')]
   \<and> merge_calls (fst (process_rmdoc_file ex_ordered ex_path)) =
        [([''/out/temp_extract_u/c.pdf'', ''/out/temp_extract_u/a.pdf'',
           ''/out/temp_extract_u/b.pdf''], ''/out/N.pdf'')]
   \<and> pdf_writes (fst (process_rmdoc_file ex_ordered ex_path)) =
        [(''/out/N.pdf'', [''/out/temp_extract_u/c.pdf'', ''/out/temp_extract_u/a.pdf'',
           ''/out/temp_extract_u/b.pdf''])]
   \<and> all_files ex_reordered_tree = [''a.rm'', ''c.rm'', ''X.content'', ''b.rm'']
   \<and> rmc_calls (fst (process_rmdoc_file ex_reordered ex_path)) =
        rmc_calls (fst (process_rmdoc_file ex_ordered ex_path))
   \<and> pdf_writes (fst (process_rmdoc_file ex_reordered ex_path)) =
        pdf_writes (fst (process_rmdoc_file ex_ordered ex_path))"
proof -
  let ?ids = "[''c'', ''a'', ''b'']"
  have g1: "native_notebook ex_reordered ex_path ex_reordered_tree (map JStr ?ids)"
    by code_simp
  have gt: "temp_extract_dir_of ex_reordered ex_path = ''/out/temp_extract_u''"
    by code_simp
  have gm: "rm_matches ''/out/temp_extract_u'' ex_reordered_tree ''c'' = [''/out/temp_extract_u/c.rm'']"
    "rm_matches ''/out/temp_extract_u'' ex_reordered_tree ''a'' = [''/out/temp_extract_u/s/a.rm'']"
    "rm_matches ''/out/temp_extract_u'' ex_reordered_tree ''b'' = [''/out/temp_extract_u/b.rm'']"
    by code_simp+
  have g4: "\<forall>s \<in> set ?ids. rmc ex_reordered (page_pdf ex_reordered ex_path s) (ex_ordered_src s) = RmcOk"
    by (simp add: ex_reordered_def ex_world_def)
  have g5: "\<not> PdfMerger_is_None ex_reordered
      \<and> (\<forall>s \<in> set ?ids. pdf_append_ok ex_reordered (page_pdf ex_reordered ex_path s))
      \<and> pdf_write_ok ex_reordered (final_pdf_path_of ex_path)"
    by (simp add: ex_reordered_def ex_world_def)
  have ge: "page_pdf ex_reordered ex_path = page_pdf ex_ordered ex_path"
    by (simp add: page_pdf_def temp_extract_dir_of_def ex_reordered_def ex_ordered_def
          ex_world_def fun_eq_iff)
  have g6: "all_files ex_reordered_tree = [''a.rm'', ''c.rm'', ''X.content'', ''b.rm'']"
    by code_simp
  have h1: "native_notebook ex_ordered ex_path ex_ordered_tree (map JStr ?ids)"
    by code_simp
  have h2: "?ids \<noteq> []"
    by simp
  have t: "temp_extract_dir_of ex_ordered ex_path = ''/out/temp_extract_u''"
    by code_simp
  have m: "rm_matches ''/out/temp_extract_u'' ex_ordered_tree ''c'' = [''/out/temp_extract_u/c.rm'']"
    "rm_matches ''/out/temp_extract_u'' ex_ordered_tree ''a'' = [''/out/temp_extract_u/s/a.rm'']"
    "rm_matches ''/out/temp_extract_u'' ex_ordered_tree ''b'' = [''/out/temp_extract_u/b.rm'']"
    by code_simp+
  have s: "ex_ordered_src ''c'' = ''/out/temp_extract_u/c.rm''"
    "ex_ordered_src ''a'' = ''/out/temp_extract_u/s/a.rm''"
    "ex_ordered_src ''b'' = ''/out/temp_extract_u/b.rm''"
    by code_simp+
  have h3: "\<forall>s \<in> set ?ids. set (rm_matches (temp_extract_dir_of ex_ordered ex_path) ex_ordered_tree s)
      = {ex_ordered_src s}"
    unfolding t by (simp add: m s)
  have h4: "\<forall>s \<in> set ?ids. rmc ex_ordered (page_pdf ex_ordered ex_path s) (ex_ordered_src s) = RmcOk"
    by (simp add: ex_ordered_def ex_world_def)
  have h5: "\<not> PdfMerger_is_None ex_ordered
      \<and> (\<forall>s \<in> set ?ids. pdf_append_ok ex_ordered (page_pdf ex_ordered ex_path s))
      \<and> pdf_write_ok ex_ordered (final_pdf_path_of ex_path)"
    by (simp add: ex_ordered_def ex_world_def)
  have e1: "map (page_pdf ex_ordered ex_path) ?ids =
      [''/out/temp_extract_u/c.pdf'', ''/out/temp_extract_u/a.pdf'', ''/out/temp_extract_u/b.pdf'']"
    by code_simp
  have e1': "map (\<lambda>s. (page_pdf ex_ordered ex_path s, ex_ordered_src s)) ?ids =
        [(''/out/temp_extract_u/c.pdf'', ''/out/temp_extract_u/c.rm''),
         (''/out/temp_extract_u/a.pdf'', ''/out/temp_extract_u/s/a.rm''),
         (''/out/temp_extract_u/b.pdf'', ''/out/temp_extract_u/b.rm'')]"
    by code_simp
  have e2: "final_pdf_path_of ex_path = ''/out/N.pdf''"
    by code_simp
  have e3: "all_files ex_ordered_tree = [''b.rm'', ''X.content'', ''c.rm'', ''a.rm'']"
    by code_simp
  have g3: "\<forall>s \<in> set ?ids.
      set (rm_matches (temp_extract_dir_of ex_reordered ex_path) ex_reordered_tree s)
      = {ex_ordered_src s}"
    unfolding gt by (simp add: gm s)
  note a = page_order_is_manifest_order [OF h1 h2 h3 h4]
  note b = page_order_is_manifest_order [OF g1 h2 g3 g4, unfolded ge]
  from a b h5 g5 [unfolded ge]
  have same: "rmc_calls (fst (process_rmdoc_file ex_reordered ex_path)) =
        rmc_calls (fst (process_rmdoc_file ex_ordered ex_path))"
    "pdf_writes (fst (process_rmdoc_file ex_reordered ex_path)) =
        pdf_writes (fst (process_rmdoc_file ex_ordered ex_path))"
    by simp_all
  show ?thesis
    using a h1 h5 e3 m g6 same unfolding e1 e1' e2 by simp
qed

text \<open>
  Claim C3 as stated fails when a page id is the beginning of the name of another
  page's source entry. The two archives hold the same entries \<open>a.rm\<close> and \<open>ab.rm\<close>
  in two orders on disk, and the manifest lists \<open>a, ab\<close>. With \<open>ab.rm\<close> listed
  first, the search for page \<open>a\<close> ends at \<open>ab.rm\<close>: the first page of the output
  is rendered from the entry of page \<open>ab\<close>, and the entry of page \<open>a\<close> is never
  rendered. With \<open>a.rm\<close> listed first each page is rendered from its own entry.
\<close>

theorem page_source_order_counterexample:
  "native_notebook ex_prefix1 ex_path ex_prefix_tree1 [JStr ''a'', JStr ''ab'']
   \<and> native_notebook ex_prefix2 ex_path ex_prefix_tree2 [JStr ''a'', JStr ''ab'']
   \<and> set (all_files ex_prefix_tree1) = set (all_files ex_prefix_tree2)
   \<and> ''a.rm'' \<in> set (all_files ex_prefix_tree1) \<and> ''ab.rm'' \<in> set (all_files ex_prefix_tree1)
   \<and> rmc_calls (fst (process_rmdoc_file ex_prefix1 ex_path)) =
        [(''/out/temp_extract_u/a.pdf'', ''/out/temp_extract_u/ab.rm''),
         (''/out/temp_extract_u/ab.pdf'', ''/out/temp_extract_u/ab.rm'')]
   \<and> rmc_calls (fst (process_rmdoc_file ex_prefix2 ex_path)) =
        [(''/out/temp_extract_u/a.pdf'', ''/out/temp_extract_u/a.rm''),
         (''/out/temp_extract_u/ab.pdf'', ''/out/temp_extract_u/ab.rm'')]
   \<and> rmc_calls (fst (process_rmdoc_file ex_prefix1 ex_path))
       \<noteq> rmc_calls (fst (process_rmdoc_file ex_prefix2 ex_path))
   \<and> pdf_writes (fst (process_rmdoc_file ex_prefix1 ex_path)) =
        [(''/out/N.pdf'', [''/out/temp_extract_u/a.pdf'', ''/out/temp_extract_u/ab.pdf''])]"
  by code_simp



text \<open>
  Claim C1 at a notebook of three pages \<open>a, b, c\<close> whose page \<open>b\<close> fails to
  convert. The program appends the output path of a page before it runs the
  converter, so the path of \<open>b\<close> is in the list handed to \<open>merge_pdfs\<close>, where the
  claim has it absent. The pages after \<open>b\<close> are still converted. With no file at
  that path the merger fails and no document is written.
\<close>

theorem failed_conversion_still_handed_to_merger:
  "native_notebook ex_midfail ex_path ex_midfail_tree [JStr ''a'', JStr ''b'', JStr ''c'']
   \<and> rmc ex_midfail ''/out/temp_extract_u/b.pdf'' ''/out/temp_extract_u/b.rm''
        = RmcCalledProcessError
   \<and> rmc_outputs (fst (process_rmdoc_file ex_midfail ex_path)) =
        [''/out/temp_extract_u/a.pdf'', ''/out/temp_extract_u/b.pdf'', ''/out/temp_extract_u/c.pdf'']
   \<and> merge_calls (fst (process_rmdoc_file ex_midfail ex_path)) =
        [([''/out/temp_extract_u/a.pdf'', ''/out/temp_extract_u/b.pdf'',
           ''/out/temp_extract_u/c.pdf''], ''/out/N.pdf'')]
   \<and> pdf_writes (fst (process_rmdoc_file ex_midfail ex_path)) = []
   \<and> Print MsgMergeError \<in> set (fst (process_rmdoc_file ex_midfail ex_path))"
  by code_simp

section \<open>Archive Classifier: the embedded document\<close>

lemma root_file_exists:
  "File n \<in> set tree \<Longrightarrow> os_path_join t n \<in> set (tree_paths t tree)"
  by (induction t tree rule: tree_paths.induct) auto

text \<open>
  Claim C2, as amended. When the archive extracts, its manifest is found and
  parses as JSON, and a file named \<open><stem>.pdf\<close> lies directly in the root of the
  extraction directory (\<open>stem\<close> the manifest's file name without its suffix), the
  run copies that file to the final output path, and neither the converter nor
  \<open>merge_pdfs\<close> is called, whatever page list the manifest holds.
\<close>

theorem root_pdf_copied:
  assumes "extractall E p (temp_extract_dir_of E p) = Some tree"
    and "first_file (suffix ''.content'') (os_walk (temp_extract_dir_of E p) tree) = Some content_file"
    and "json_load E content_file = Some content_data"
    and "File (path_stem content_file @ ''.pdf'') \<in> set tree"
  shows "copies (fst (process_rmdoc_file E p)) =
           [(os_path_join (temp_extract_dir_of E p) (path_stem content_file @ ''.pdf''),
             final_pdf_path_of p)]
     \<and> rmc_outputs (fst (process_rmdoc_file E p)) = []
     \<and> merge_calls (fst (process_rmdoc_file E p)) = []"
proof -
  let ?ted = "temp_extract_dir_of E p"
  let ?pdf = "os_path_join ?ted (path_stem content_file @ ''.pdf'')"
  have ex: "os_path_exists ?ted tree ?pdf"
    using assms(4) by (simp add: os_path_exists_def root_file_exists)
  have pt: "process_try E p ?ted (final_pdf_path_of p) =
      pre [Extractall p ?ted, Print (MsgUnzipped ?ted), Print (MsgFoundImportedPdf ?pdf)]
        (copy_to E ?pdf (final_pdf_path_of p))"
    by (simp add: process_try_def assms(1,2,3) ex Let_def pre_def del: os_walk.simps)
  show ?thesis
    by (cases "copyfile_ok E ?pdf (final_pdf_path_of p)")
       (simp_all add: process_rmdoc_file_def Let_def pt pre_def copy_to_def)
qed

theorem root_pdf_copied_witness:
  "extractall ex_embedded ex_path (temp_extract_dir_of ex_embedded ex_path)
     = Some [File ''X.content'', File ''X.pdf'', File ''p1.rm'']
   \<and> page_ids_of (ex_manifest [''p1'']) = Inr [JStr ''p1'']
   \<and> copies (fst (process_rmdoc_file ex_embedded ex_path)) =
        [(''/out/temp_extract_u/X.pdf'', ''/out/N.pdf'')]
   \<and> rmc_outputs (fst (process_rmdoc_file ex_embedded ex_path)) = []
   \<and> merge_calls (fst (process_rmdoc_file ex_embedded ex_path)) = []"
proof -
  let ?tree = "[File ''X.content'', File ''X.pdf'', File ''p1.rm'']"
  have h1: "extractall ex_embedded ex_path (temp_extract_dir_of ex_embedded ex_path) = Some ?tree"
    by code_simp
  have h2: "first_file (suffix ''.content'') (os_walk (temp_extract_dir_of ex_embedded ex_path) ?tree)
      = Some ''/out/temp_extract_u/X.content''"
    by code_simp
  have h3: "json_load ex_embedded ''/out/temp_extract_u/X.content'' = Some (ex_manifest [''p1''])"
    by code_simp
  have h4: "File (path_stem ''/out/temp_extract_u/X.content'' @ ''.pdf'') \<in> set ?tree"
    by code_simp
  have e1: "os_path_join (temp_extract_dir_of ex_embedded ex_path)
      (path_stem ''/out/temp_extract_u/X.content'' @ ''.pdf'') = ''/out/temp_extract_u/X.pdf''"
    by code_simp
  have e2: "final_pdf_path_of ex_path = ''/out/N.pdf''"
    by code_simp
  have e3: "page_ids_of (ex_manifest [''p1'']) = Inr [JStr ''p1'']"
    by code_simp
  show ?thesis
    using root_pdf_copied [OF h1 h2 h3 h4] h1 e3 unfolding e1 e2 by simp
qed

text \<open>
  Claim C2 as stated fails: in this archive the manifest \<open>X.content\<close> and the
  rendered document \<open>X.pdf\<close> lie together in the subdirectory \<open>d\<close>. The program
  looks for \<open>X.pdf\<close> in the root of the extraction directory only, copies
  nothing, and converts and merges the page of the manifest.
\<close>

theorem nested_pdf_counterexample:
  "extractall ex_nested ex_path (temp_extract_dir_of ex_nested ex_path) = Some ex_nested_tree
   \<and> first_file (suffix ''.content'') (os_walk (temp_extract_dir_of ex_nested ex_path) ex_nested_tree)
       = Some ''/out/temp_extract_u/d/X.content''
   \<and> path_stem ''/out/temp_extract_u/d/X.content'' = ''X''
   \<and> ''X.pdf'' \<in> set (all_files ex_nested_tree)
   \<and> ''/out/temp_extract_u/d/X.pdf'' \<in> set (tree_paths ''/out/temp_extract_u'' ex_nested_tree)
   \<and> copies (fst (process_rmdoc_file ex_nested ex_path)) = []
   \<and> rmc_outputs (fst (process_rmdoc_file ex_nested ex_path)) = [''/out/temp_extract_u/p1.pdf'']
   \<and> merge_calls (fst (process_rmdoc_file ex_nested ex_path)) =
        [([''/out/temp_extract_u/p1.pdf''], ''/out/N.pdf'')]"
  by code_simp

section \<open>A manifest that is not JSON\<close>

text \<open>
  Claim C10. When the archive extracts and a manifest is found whose contents
  \<open>json.load\<close> rejects, \<open>process_rmdoc_file\<close> ends by raising that error: it is not
  reported and skipped. The extraction directory is removed before the error
  leaves the function. In the main loop the error ends the run: whatever
  \<open>rmapi_download\<close> does, the loop ends with an exception at this file and the
  files after it are neither downloaded nor processed.
\<close>

theorem invalid_manifest_propagates:
  assumes "extractall (W i) p (temp_extract_dir_of (W i) p) = Some tree"
    and "first_file (suffix ''.content'') (os_walk (temp_extract_dir_of (W i) p) tree) = Some content_file"
    and "json_load (W i) content_file = None"
    and "p = os_path_join (abspath (W i) output) (lstrip_slash file) @ ''.rmdoc''"
  shows "process_rmdoc_file (W i) p =
           ([Print (MsgStarting p), Extractall p (temp_extract_dir_of (W i) p),
             Print (MsgUnzipped (temp_extract_dir_of (W i) p)),
             Print (MsgCleaningUp (temp_extract_dir_of (W i) p)),
             Rmtree (temp_extract_dir_of (W i) p), Print MsgCleanupComplete],
            Raised JSONDecodeError)
     \<and> main_loop W rmapi_download output i (file # rest) =
          (case rmapi_download i file output of
             (evs, Raised e) \<Rightarrow> (evs, Raised e)
           | (evs, Returned) \<Rightarrow> (evs @ fst (process_rmdoc_file (W i) p), Raised JSONDecodeError))"
proof -
  let ?ted = "temp_extract_dir_of (W i) p"
  have pt: "process_try (W i) p ?ted (final_pdf_path_of p) =
      ([Extractall p ?ted, Print (MsgUnzipped ?ted)], Raise JSONDecodeError)"
    by (simp add: process_try_def assms(1,2,3) pre_def del: os_walk.simps)
  have pr: "process_rmdoc_file (W i) p =
           ([Print (MsgStarting p), Extractall p ?ted, Print (MsgUnzipped ?ted),
             Print (MsgCleaningUp ?ted), Rmtree ?ted, Print MsgCleanupComplete],
            Raised JSONDecodeError)"
    by (simp add: process_rmdoc_file_def Let_def pt pre_def)
  obtain evs oc where dl: "rmapi_download i file output = (evs, oc)"
    by (cases "rmapi_download i file output")
  have "main_loop W rmapi_download output i (file # rest) =
          (case rmapi_download i file output of
             (evs, Raised e) \<Rightarrow> (evs, Raised e)
           | (evs, Returned) \<Rightarrow> (evs @ fst (process_rmdoc_file (W i) p), Raised JSONDecodeError))"
  proof (cases oc)
    case Returned
    with dl pr [unfolded assms(4)] show ?thesis
      by (simp add: Let_def assms(4))
  next
    case (Raised e)
    with dl show ?thesis by simp
  qed
  with pr show ?thesis by simp
qed

theorem invalid_manifest_propagates_witness:
  "json_load ex_invalid ''/out/temp_extract_u/X.content'' = None
   \<and> process_rmdoc_file ex_invalid ex_path =
        ([Print (MsgStarting ''/out/N.rmdoc''),
          Extractall ''/out/N.rmdoc'' ''/out/temp_extract_u'',
          Print (MsgUnzipped ''/out/temp_extract_u''),
          Print (MsgCleaningUp ''/out/temp_extract_u''),
          Rmtree ''/out/temp_extract_u'', Print MsgCleanupComplete],
         Raised JSONDecodeError)
   \<and> main_loop (\<lambda>i. ex_invalid) (\<lambda>i f out. ([], Returned)) ''/out'' 0 [''/N'', ''/M''] =
        ([Print (MsgStarting ''/out/N.rmdoc''),
          Extractall ''/out/N.rmdoc'' ''/out/temp_extract_u'',
          Print (MsgUnzipped ''/out/temp_extract_u''),
          Print (MsgCleaningUp ''/out/temp_extract_u''),
          Rmtree ''/out/temp_extract_u'', Print MsgCleanupComplete],
         Raised JSONDecodeError)"
proof -
  let ?W = "\<lambda>i::nat. ex_invalid"
  let ?tree = "[File ''X.content'', File ''p1.rm'']"
  have h1: "extractall (?W 0) ex_path (temp_extract_dir_of (?W 0) ex_path) = Some ?tree"
    by code_simp
  have h2: "first_file (suffix ''.content'') (os_walk (temp_extract_dir_of (?W 0) ex_path) ?tree)
      = Some ''/out/temp_extract_u/X.content''"
    by code_simp
  have h3: "json_load (?W 0) ''/out/temp_extract_u/X.content'' = None"
    by code_simp
  have h4: "ex_path = os_path_join (abspath (?W 0) ''/out'') (lstrip_slash ''/N'') @ ''.rmdoc''"
    by code_simp
  have e1: "temp_extract_dir_of ex_invalid ex_path = ''/out/temp_extract_u''"
    by code_simp
  have e3: "ex_path = ''/out/N.rmdoc''"
    by (simp add: ex_path_def)
  note t = invalid_manifest_propagates [of ?W 0 ex_path ?tree _ "''/out''" "''/N''"
      "\<lambda>i f out. ([], Returned)" "[''/M'']", OF h1 h2 h3 h4]
  from t have a: "process_rmdoc_file ex_invalid ex_path =
        ([Print (MsgStarting ''/out/N.rmdoc''),
          Extractall ''/out/N.rmdoc'' ''/out/temp_extract_u'',
          Print (MsgUnzipped ''/out/temp_extract_u''),
          Print (MsgCleaningUp ''/out/temp_extract_u''),
          Rmtree ''/out/temp_extract_u'', Print MsgCleanupComplete],
         Raised JSONDecodeError)"
    unfolding e1 by (simp add: e3 [symmetric])
  from t have b: "main_loop ?W (\<lambda>i f out. ([], Returned)) ''/out'' 0 [''/N'', ''/M''] =
      (fst (process_rmdoc_file ex_invalid ex_path), Raised JSONDecodeError)"
    by simp
  from h3 a b show ?thesis by simp
qed

end
